theory Spec2Isabelle
  imports Complex_Main "HOL-Library.Sublist"
begin

section \<open>Frizzle travel planning agent (\<^verbatim>\<open>agent/agent.py\<close>)\<close>

text \<open>
  A shallow embedding of the payload builders, the activity source adapter, the two
  itinerary-related tools and the dispatch graph of \<^verbatim>\<open>agent.py\<close>.

  Python \<^verbatim>\<open>str\<close> values are modelled as \<^typ>\<open>string\<close>. The case mappings
  \<^verbatim>\<open>str.lower\<close> and \<^verbatim>\<open>str.title\<close> are modelled on the ASCII letters; every other
  character is uncased and left unchanged. The non-ASCII characters of the fixed templates
  of the source (the emoji of the headings) are written as their UTF-8 bytes.
\<close>

subsection \<open>Strings\<close>

definition nl :: string where
  "nl = [CHR 0x0A]"

definition is_upper :: "char \<Rightarrow> bool" where
  "is_upper c = ((65::nat) \<le> of_char c \<and> of_char c \<le> (90::nat))"

definition is_lower :: "char \<Rightarrow> bool" where
  "is_lower c = ((97::nat) \<le> of_char c \<and> of_char c \<le> (122::nat))"

definition is_cased :: "char \<Rightarrow> bool" where
  "is_cased c = (is_upper c \<or> is_lower c)"

definition to_lower :: "char \<Rightarrow> char" where
  "to_lower c = (if is_upper c then char_of (of_char c + (32::nat)) else c)"

definition to_upper :: "char \<Rightarrow> char" where
  "to_upper c = (if is_lower c then char_of (of_char c - (32::nat)) else c)"

text \<open>\<^verbatim>\<open>s.lower()\<close>\<close>

definition lower :: "string \<Rightarrow> string" where
  "lower s = map to_lower s"

text \<open>
  \<^verbatim>\<open>s.title()\<close>: a cased character that follows an uncased one (or starts the string)
  is upper-cased, a cased character that follows a cased one is lower-cased. The flag is
  CPython's \<^verbatim>\<open>previous_is_cased\<close>.
\<close>

fun title_from :: "bool \<Rightarrow> string \<Rightarrow> string" where
  "title_from previous_is_cased [] = []"
| "title_from previous_is_cased (c # cs) =
     (if is_cased c
      then (if previous_is_cased then to_lower c else to_upper c) # title_from True cs
      else c # title_from False cs)"

definition title :: "string \<Rightarrow> string" where
  "title s = title_from False s"

text \<open>\<^verbatim>\<open>sep.join(xs)\<close>\<close>

fun join :: "string \<Rightarrow> string list \<Rightarrow> string" where
  "join sep [] = []"
| "join sep [x] = x"
| "join sep (x # y # ys) = x @ sep @ join sep (y # ys)"

text \<open>\<^verbatim>\<open>a in b\<close> on two strings: \<open>a\<close> occurs in \<open>b\<close> as a contiguous block.\<close>

fun str_in :: "string \<Rightarrow> string \<Rightarrow> bool" where
  "str_in a [] = (a = [])"
| "str_in a (c # cs) = (prefix a (c # cs) \<or> str_in a cs)"

subsection \<open>Checklist payload\<close>

record checklist_item =
  item_label :: string
  item_checked :: bool

record checklist_section =
  section_title :: string
  section_items :: "checklist_item list"

record checklist_payload =
  cl_type :: string
  cl_version :: int
  cl_title :: string
  cl_destination :: string
  cl_context :: string
  cl_sections :: "checklist_section list"

text \<open>The dict \<^verbatim>\<open>{"markdown": ..., "json_tag": ..., "data": ...}\<close> that the builder returns.\<close>

record checklist_result =
  cl_markdown :: string
  cl_json_tag :: string
  cl_data :: checklist_payload

definition new_item :: "string \<Rightarrow> checklist_item" where
  "new_item l = \<lparr>item_label = l, item_checked = False\<rparr>"

definition checklist_sections :: "checklist_section list" where
  "checklist_sections =
    [\<lparr>section_title = ''Before You Go'',
      section_items =
        [new_item ''Book flights'',
         new_item ''Reserve accommodation'',
         new_item ''Check passport validity (>6 months)'',
         new_item ''Apply for visa if needed'',
         new_item ''Get travel insurance'',
         new_item ''Notify bank of travel plans'',
         new_item ''Check vaccination requirements'']\<rparr>,
     \<lparr>section_title = ''Pack & Prepare'',
      section_items =
        [new_item ''Pack according to weather'',
         new_item ''Bring necessary adapters'',
         new_item ''Download offline maps'',
         new_item ''Learn basic local phrases'',
         new_item ''Research local customs'',
         new_item ''Exchange currency or get travel card'']\<rparr>,
     \<lparr>section_title = ''During Trip'',
      section_items =
        [new_item ''Check in for flights'',
         new_item ''Confirm accommodations'',
         new_item ''Keep important documents safe'',
         new_item ''Stay hydrated and healthy'']\<rparr>]"

text \<open>The check mark U+2705 of the markdown heading, in UTF-8.\<close>

definition emoji_check :: string where
  "emoji_check = [CHR 0xE2, CHR 0x9C, CHR 0x85]"

text \<open>
  The two loops that fill \<^verbatim>\<open>md_lines\<close>: one heading line per section, followed by one
  checkbox line per item.
\<close>

definition section_md_lines :: "checklist_section \<Rightarrow> string list" where
  "section_md_lines sec =
     (nl @ ''### '' @ section_title sec)
       # map (\<lambda>item. ''- [ ] '' @ item_label item) (section_items sec)"

text \<open>
  \<^verbatim>\<open>_generate_checklist(destination, context)\<close>. \<^verbatim>\<open>json.dumps\<close> belongs to the Python
  library and is the parameter \<open>dumps\<close>.
\<close>

definition generate_checklist ::
  "(checklist_payload \<Rightarrow> string) \<Rightarrow> string \<Rightarrow> string \<Rightarrow> checklist_result" where
  "generate_checklist dumps destination context =
    (let title_str =
           (if destination = [] then title context @ '' Checklist''
            else title destination @ '' '' @ title context @ '' Checklist'');
         sections = checklist_sections;
         payload = \<lparr>cl_type = ''checklist'', cl_version = 1, cl_title = title_str,
                    cl_destination = destination, cl_context = context,
                    cl_sections = sections\<rparr>;
         json_tag = ''```json checklist'' @ nl @ dumps payload @ nl @ ''```'';
         md_lines = (''## '' @ emoji_check @ '' '' @ title_str)
                      # concat (map section_md_lines sections);
         markdown = join nl md_lines
     in \<lparr>cl_markdown = markdown, cl_json_tag = json_tag, cl_data = payload\<rparr>)"

subsection \<open>Activity source adapter\<close>

record activity =
  act_name :: string
  act_description :: string
  act_category :: string

text \<open>\<^verbatim>\<open>d.get(k, default)\<close> on a dict written as an association list in source order.\<close>

definition dict_get :: "('k \<times> 'v) list \<Rightarrow> 'k \<Rightarrow> 'v \<Rightarrow> 'v" where
  "dict_get d k dflt = (case map_of d k of Some v \<Rightarrow> v | None \<Rightarrow> dflt)"

text \<open>\<^verbatim>\<open>s.split(",")\<close>: the empty string gives one empty field.\<close>

fun split_on :: "char \<Rightarrow> string \<Rightarrow> string list" where
  "split_on sep [] = [[]]"
| "split_on sep (c # cs) =
     (if c = sep then [] # split_on sep cs
      else (case split_on sep cs of
              w # ws \<Rightarrow> (c # w) # ws
            | [] \<Rightarrow> [[c]]))"

text \<open>\<^verbatim>\<open>s.split(sep)[0]\<close> for a non-empty separator: the text before its first occurrence.\<close>

fun before_sep :: "string \<Rightarrow> string \<Rightarrow> string" where
  "before_sep sep [] = []"
| "before_sep sep (c # cs) = (if prefix sep (c # cs) then [] else c # before_sep sep cs)"

definition is_space :: "char \<Rightarrow> bool" where
  "is_space c = (let n = (of_char c :: nat) in (9 \<le> n \<and> n \<le> 13) \<or> (28 \<le> n \<and> n \<le> 32))"

text \<open>\<^verbatim>\<open>s.strip()\<close>\<close>

definition strip :: "string \<Rightarrow> string" where
  "strip s = rev (dropWhile is_space (rev (dropWhile is_space s)))"

text \<open>
  The outside world of the adapter. \<^verbatim>\<open>os.getenv\<close> is \<open>api_key\<close>. Each HTTP request
  (\<^verbatim>\<open>urlopen\<close> followed by \<^verbatim>\<open>json.loads\<close>) either raises, also when the answer does not
  have the shape the code reads, or yields the fields that the code reads from the answer:
  \<^item> the geoname request, from the destination and the key: \<^verbatim>\<open>lon\<close> and \<^verbatim>\<open>lat\<close>;
  \<^item> the radius request, from \<^verbatim>\<open>lon\<close>, \<^verbatim>\<open>lat\<close>, the kinds, the limit and the key: for each
    feature its \<^verbatim>\<open>name\<close>, \<^verbatim>\<open>kinds\<close> and \<^verbatim>\<open>xid\<close> properties;
  \<^item> the detail request, from the xid and the key: the \<^verbatim>\<open>text\<close> of
    \<^verbatim>\<open>wikipedia_extracts\<close>.
\<close>

datatype 'a response = Raised | Got 'a

record geoname =
  geo_lon :: "real option"
  geo_lat :: "real option"

record feature =
  prop_name :: "string option"
  prop_kinds :: "string option"
  prop_xid :: "string option"

record env =
  api_key :: "string option"
  get_geoname :: "string \<Rightarrow> string \<Rightarrow> geoname response"
  get_radius :: "real \<Rightarrow> real \<Rightarrow> string \<Rightarrow> int \<Rightarrow> string \<Rightarrow> feature list response"
  get_detail :: "string \<Rightarrow> string \<Rightarrow> string option response"

definition style_to_kinds :: "(string \<times> string) list" where
  "style_to_kinds =
    [(''adventure'', ''hiking,active,beaches,water,parks''),
     (''relaxed'', ''gardens,parks,spa,tea,cafes''),
     (''cultural'', ''museums,historic,monuments,theatres,galleries,architecture''),
     (''food'', ''restaurants,foods,cafes,marketplaces''),
     (''balanced'', ''sights,interesting_places,architecture,restaurants,parks'')]"

definition map_kinds_to_category :: "string option \<Rightarrow> string" where
  "map_kinds_to_category kinds_str =
    (let ks = split_on CHR '','' (case kinds_str of Some s \<Rightarrow> s | None \<Rightarrow> []);
         s = set ks
     in if {''museums'', ''museum''} \<inter> s \<noteq> {} then ''Museum''
        else if {''theatres'', ''theatre''} \<inter> s \<noteq> {} then ''Arts''
        else if {''historic'', ''monuments''} \<inter> s \<noteq> {} then ''History''
        else if {''restaurants'', ''foods'', ''marketplaces''} \<inter> s \<noteq> {} then ''Food''
        else if {''hiking'', ''active'', ''trails''} \<inter> s \<noteq> {} then ''Hiking''
        else if {''water''} \<inter> s \<noteq> {} then ''Water Sports''
        else if {''parks'', ''gardens'', ''beaches''} \<inter> s \<noteq> {} then ''Parks''
        else ''Sightseeing'')"

text \<open>
  The description of one feature: the generic sentence, replaced by the first sentence of
  the detail text when the feature has an xid, fewer than 6 results exist, the detail
  request does not raise and its stripped text is not empty.
\<close>

definition describe_feature ::
  "env \<Rightarrow> string \<Rightarrow> string \<Rightarrow> string \<Rightarrow> feature \<Rightarrow> nat \<Rightarrow> string" where
  "describe_feature e key destination category f n_results =
    (let description = ''A '' @ lower category @ '' in '' @ destination @ ''.''
     in case prop_xid f of
          None \<Rightarrow> description
        | Some xid \<Rightarrow>
            if xid \<noteq> [] \<and> n_results < 6 then
              (case get_detail e xid key of
                 Raised \<Rightarrow> description
               | Got text_opt \<Rightarrow>
                   (let snippet = strip (case text_opt of Some t \<Rightarrow> t | None \<Rightarrow> [])
                    in if snippet \<noteq> [] then strip (before_sep ''. '' snippet)
                       else description))
            else description)"

text \<open>The loop over the features, with its \<^verbatim>\<open>break\<close> once \<open>limit\<close> results exist.\<close>

fun collect_features ::
  "env \<Rightarrow> string \<Rightarrow> string \<Rightarrow> int \<Rightarrow> feature list \<Rightarrow> activity list \<Rightarrow> activity list" where
  "collect_features e key destination limit [] results = results"
| "collect_features e key destination limit (f # fs) results =
    (let name = (case prop_name f of
                   None \<Rightarrow> ''Point of Interest''
                 | Some n \<Rightarrow> if n = [] then ''Point of Interest'' else n);
         category = map_kinds_to_category (prop_kinds f);
         description = describe_feature e key destination category f (length results);
         results' = results @ [\<lparr>act_name = name, act_description = description,
                                 act_category = category\<rparr>]
     in if limit \<le> int (length results') then results'
        else collect_features e key destination limit fs results')"

text \<open>\<^verbatim>\<open>_fetch_activities_from_api(destination, travel_style, limit)\<close>\<close>

definition fetch_activities_from_api :: "env \<Rightarrow> string \<Rightarrow> string \<Rightarrow> int \<Rightarrow> activity list" where
  "fetch_activities_from_api e destination travel_style limit =
    (case api_key e of
       None \<Rightarrow> []
     | Some key \<Rightarrow>
         if key = [] then []
         else
           (let kinds = dict_get style_to_kinds travel_style
                          (dict_get style_to_kinds ''balanced'' [])
            in case get_geoname e destination key of
                 Raised \<Rightarrow> []
               | Got geo \<Rightarrow>
                   (case (geo_lon geo, geo_lat geo) of
                      (Some lon, Some lat) \<Rightarrow>
                        (case get_radius e lon lat kinds (max 3 (min limit 30)) key of
                           Raised \<Rightarrow> []
                         | Got features \<Rightarrow>
                             collect_features e key destination limit features [])
                    | _ \<Rightarrow> [])))"

subsection \<open>Itinerary payload\<close>

record currency =
  cur_code :: string
  cur_symbol :: string

record money =
  estimate :: int
  money_currency :: string

record placed_activity =
  pa_name :: string
  pa_description :: string
  pa_category :: string
  pa_location :: string

record day_part =
  timeOfDay :: string
  part_activity :: placed_activity
  part_cost :: money

record day_plan =
  day :: int
  parts :: "day_part list"
  day_notes :: "string list"

record cost_breakdown =
  flights :: money
  accommodationPerNight :: money
  activities_cost :: money
  localTransportPerDay :: money
  foodPerDay :: money

record cost_summary =
  estimatedTotalCost :: money
  breakdown :: cost_breakdown

record itinerary_payload =
  it_type :: string
  it_version :: int
  it_destination :: string
  durationDays :: int
  travelStyle :: string
  it_currency :: currency
  days :: "day_plan list"
  summary :: cost_summary
  checklist :: checklist_payload

record itinerary_result =
  it_data :: itinerary_payload
  it_json_tag :: string

text \<open>The yen sign U+00A5 and the euro sign U+20AC, in UTF-8.\<close>

definition currency_map :: "(string \<times> currency) list" where
  "currency_map =
    [(''tokyo'', \<lparr>cur_code = ''JPY'', cur_symbol = [CHR 0xC2, CHR 0xA5]\<rparr>),
     (''paris'', \<lparr>cur_code = ''EUR'', cur_symbol = [CHR 0xE2, CHR 0x82, CHR 0xAC]\<rparr>),
     (''bali'', \<lparr>cur_code = ''IDR'', cur_symbol = ''Rp''\<rparr>)]"

definition usd :: currency where
  "usd = \<lparr>cur_code = ''USD'', cur_symbol = ''$''\<rparr>"

text \<open>\<^verbatim>\<open>currency_map.get(destination.lower(), {"code": "USD", "symbol": "$"})\<close>\<close>

definition resolve_currency :: "string \<Rightarrow> currency" where
  "resolve_currency destination = dict_get currency_map (lower destination) usd"

text \<open>
  The Python floats of the cost conversion are modelled as reals: the scale factors are
  the decimal literals of the source, and the rounding error of the float product and
  quotient is not modelled.
\<close>

definition scale_map :: "(string \<times> real) list" where
  "scale_map = [(''USD'', 1), (''EUR'', 95 / 100), (''JPY'', 150), (''IDR'', 16000)]"

definition rounding_unit :: "(string \<times> int) list" where
  "rounding_unit = [(''USD'', 1), (''EUR'', 1), (''JPY'', 50), (''IDR'', 1000)]"

definition scale_of :: "currency \<Rightarrow> real" where
  "scale_of cur = dict_get scale_map (cur_code cur) 1"

definition unit_of :: "currency \<Rightarrow> int" where
  "unit_of cur = dict_get rounding_unit (cur_code cur) 1"

text \<open>Python's \<^verbatim>\<open>round(x)\<close> with one argument: to the nearest integer, a tie to the even one.\<close>

definition py_round :: "real \<Rightarrow> int" where
  "py_round x =
    (let f = \<lfloor>x\<rfloor>; d = x - of_int f
     in if d < 1 / 2 then f
        else if 1 / 2 < d then f + 1
        else if even f then f else f + 1)"

text \<open>
  The closure \<^verbatim>\<open>to_money(amount_usd)\<close>; the variables \<^verbatim>\<open>currency\<close>, \<^verbatim>\<open>scale\<close> and
  \<^verbatim>\<open>unit\<close> that it captures are computed from the currency.
\<close>

definition to_money :: "currency \<Rightarrow> real \<Rightarrow> money" where
  "to_money cur amount_usd =
    (let scale = scale_of cur;
         unit = unit_of cur;
         raw = amount_usd * scale;
         rounded = max 0 (py_round (raw / of_int unit) * unit)
     in \<lparr>estimate = rounded, money_currency = cur_code cur\<rparr>)"

definition new_activity :: "string \<Rightarrow> string \<Rightarrow> string \<Rightarrow> activity" where
  "new_activity n d c = \<lparr>act_name = n, act_description = d, act_category = c\<rparr>"

text \<open>The en dash U+2013 of the first description of the relaxed catalog, in UTF-8.\<close>

definition en_dash :: string where
  "en_dash = [CHR 0xE2, CHR 0x80, CHR 0x93]"

definition catalog :: "(string \<times> activity list) list" where
  "catalog =
    [(''adventure'',
       [new_activity ''Scenic Hiking Trail'' ''Half-day hike with panoramic views.'' ''Hiking'',
        new_activity ''Kayaking Experience'' ''Guided paddle through calm waters.''
          ''Water Sports'',
        new_activity ''Sunset Viewpoint'' ''Short climb to catch golden hour.'' ''Outdoors'']),
     (''relaxed'',
       [new_activity ''Spa & Wellness Session''
          (''45'' @ en_dash @ ''60 min massage or spa treatment.'') ''Wellness'',
        new_activity ''Cafe Hopping'' ''Leisurely cafes with pastries and coffee.'' ''Leisure'',
        new_activity ''Park Stroll'' ''Light walk under trees and gardens.'' ''Parks'']),
     (''cultural'',
       [new_activity ''Heritage Museum Visit'' ''Explore key exhibits and galleries.'' ''Museum'',
        new_activity ''Historic District Walk'' ''Streets with architecture and landmarks.''
          ''History'',
        new_activity ''Theater or Live Show'' ''Local performance for an evening.'' ''Arts'']),
     (''food'',
       [new_activity ''Market Food Tour'' ''Taste local bites and specialties.'' ''Food'',
        new_activity ''Cooking Class'' ''Hands-on class making regional dishes.'' ''Class'',
        new_activity ''Street Eats Crawl'' ''Popular snacks across a few blocks.'' ''Food'']),
     (''balanced'',
       [new_activity ''City Highlights Walk'' ''Iconic spots in a compact route.''
          ''Sightseeing'',
        new_activity ''Local Lunch Spot'' ''Casual eatery with regional flavors.'' ''Food'',
        new_activity ''Riverside Evening'' ''Sunset views and light snacks.'' ''Leisure''])]"

text \<open>\<^verbatim>\<open>activities = fetched if fetched else catalog.get(travel_style, catalog["balanced"])\<close>\<close>

definition select_activities :: "activity list \<Rightarrow> string \<Rightarrow> activity list" where
  "select_activities fetched travel_style =
    (if fetched \<noteq> [] then fetched
     else dict_get catalog travel_style (dict_get catalog ''balanced'' []))"

definition baseline_costs :: "(string \<times> int) list" where
  "baseline_costs =
    [(''Hiking'', 0), (''Water Sports'', 40), (''Outdoors'', 0), (''Wellness'', 50),
     (''Leisure'', 12), (''Parks'', 0), (''Museum'', 18), (''History'', 0), (''Arts'', 45),
     (''Food'', 22), (''Class'', 55), (''Sightseeing'', 0)]"

definition activity_cost :: "currency \<Rightarrow> string \<Rightarrow> money" where
  "activity_cost cur category = to_money cur (of_int (dict_get baseline_costs category 0))"

definition labels :: "string list" where
  "labels = [''Morning'', ''Afternoon'', ''Evening'']"

text \<open>
  The \<^verbatim>\<open>while\<close> loop that steps \<open>k\<close> forward, cyclically, while the activity at \<open>k\<close>
  has a name already used that day and fewer than \<^verbatim>\<open>len(activities)\<close> steps were made.
  Every index the source reads is a remainder modulo \<^verbatim>\<open>len(activities)\<close>, so it is in
  range.
\<close>

function skip_used :: "activity list \<Rightarrow> string set \<Rightarrow> nat \<Rightarrow> nat \<Rightarrow> nat" where
  "skip_used acts used_names k spins =
    (if act_name (acts ! k) \<in> used_names \<and> spins < length acts
     then skip_used acts used_names ((k + 1) mod length acts) (spins + 1)
     else k)"
  by pat_completeness auto
termination
  by (relation "measure (\<lambda>(acts, used_names, k, spins). length acts - spins)") auto

declare skip_used.simps [simp del]

text \<open>One round of the loop over \<^verbatim>\<open>enumerate(labels)\<close>: the state is \<^verbatim>\<open>(parts, used_names)\<close>.\<close>

definition add_part ::
  "currency \<Rightarrow> string \<Rightarrow> activity list \<Rightarrow> nat \<Rightarrow> day_part list \<times> string set
     \<Rightarrow> nat \<times> string \<Rightarrow> day_part list \<times> string set" where
  "add_part cur destination acts start st jl =
    (case (st, jl) of
       ((parts_acc, used_names), (j, label)) \<Rightarrow>
         (let k = skip_used acts used_names ((start + j) mod length acts) 0;
              act = acts ! k
          in (parts_acc @
                [\<lparr>timeOfDay = label,
                  part_activity = \<lparr>pa_name = act_name act,
                                     pa_description = act_description act,
                                     pa_category = act_category act,
                                     pa_location = destination\<rparr>,
                  part_cost = activity_cost cur (act_category act)\<rparr>],
              insert (act_name act) used_names)))"

text \<open>The body of the loop \<^verbatim>\<open>for i in range(duration_days)\<close>.\<close>

definition build_day :: "currency \<Rightarrow> string \<Rightarrow> activity list \<Rightarrow> nat \<Rightarrow> day_plan" where
  "build_day cur destination acts i =
    (let start = (i * length labels) mod length acts;
         st = foldl (add_part cur destination acts start) ([], {}) (enumerate 0 labels)
     in \<lparr>day = int i + 1,
         parts = fst st,
         day_notes = [''Pre-book one key activity'',
                  ''Group nearby sights to minimize transit'',
                  ''Consider a day transit pass'']\<rparr>)"

text \<open>\<^verbatim>\<open>range(duration_days)\<close> is empty when \<open>duration_days\<close> is not positive.\<close>

definition build_days ::
  "currency \<Rightarrow> string \<Rightarrow> activity list \<Rightarrow> int \<Rightarrow> day_plan list" where
  "build_days cur destination acts duration_days =
     map (build_day cur destination acts) [0..<nat duration_days]"

text \<open>The two nested loops that add up \<^verbatim>\<open>activities_total\<close>.\<close>

definition activities_total :: "day_plan list \<Rightarrow> int" where
  "activities_total ds =
     foldl (\<lambda>total d. foldl (\<lambda>t p. t + estimate (part_cost p)) total (parts d)) 0 ds"

text \<open>
  \<^verbatim>\<open>_generate_itinerary_data(destination, duration_days, travel_style)\<close>. The two
  \<^verbatim>\<open>json.dumps\<close> parameters serialise the checklist and the itinerary payload.
\<close>

definition generate_itinerary_data ::
  "env \<Rightarrow> (checklist_payload \<Rightarrow> string) \<Rightarrow> (itinerary_payload \<Rightarrow> string)
     \<Rightarrow> string \<Rightarrow> int \<Rightarrow> string \<Rightarrow> itinerary_result" where
  "generate_itinerary_data e dumps_cl dumps_it destination duration_days travel_style =
    (let cur = resolve_currency destination;
         fetched = fetch_activities_from_api e destination travel_style
                     (max 6 (duration_days * 3));
         acts = select_activities fetched travel_style;
         ds = build_days cur destination acts duration_days;
         total = activities_total ds;
         flights_money = to_money cur 600;
         acc_per_night_money = to_money cur 120;
         local_transport_per_day_money = to_money cur 12;
         food_per_day_money = to_money cur 35;
         bd = \<lparr>flights = flights_money,
                accommodationPerNight = acc_per_night_money,
                activities_cost = \<lparr>estimate = total, money_currency = cur_code cur\<rparr>,
                localTransportPerDay = local_transport_per_day_money,
                foodPerDay = food_per_day_money\<rparr>;
         total_estimate =
           estimate flights_money
           + estimate acc_per_night_money * duration_days
           + total
           + estimate local_transport_per_day_money * duration_days
           + estimate food_per_day_money * duration_days;
         checklist_data = cl_data (generate_checklist dumps_cl destination ''Trip'');
         payload =
           \<lparr>it_type = ''itinerary'', it_version = 1, it_destination = destination,
             durationDays = duration_days, travelStyle = travel_style, it_currency = cur,
             days = ds,
             summary = \<lparr>estimatedTotalCost =
                          \<lparr>estimate = total_estimate, money_currency = cur_code cur\<rparr>,
                        breakdown = bd\<rparr>,
             checklist = checklist_data\<rparr>;
         json_tag = ''```json itinerary'' @ nl @ dumps_it payload @ nl @ ''```''
     in \<lparr>it_data = payload, it_json_tag = json_tag\<rparr>)"

subsection \<open>Tool \<^verbatim>\<open>research_destination\<close>\<close>

record destination_info =
  info_best_time :: string
  info_highlights :: "string list"
  info_food :: "string list"
  info_culture :: "string list"
  info_budget :: string
  info_transport :: string

text \<open>The dict \<^verbatim>\<open>destinations_db\<close>, in the order of its keys.\<close>

definition destinations_db :: "(string \<times> destination_info) list" where
  "destinations_db =
    [(''tokyo'',
      \<lparr>info_best_time = ''Spring (March-May) or Fall (September-November)'',
        info_highlights =
          [''Senso-ji Temple'',
           ''Shibuya Crossing'',
           ''Tsukiji Fish Market'',
           ''Mount Fuji day trips''],
        info_food =
          [''Sushi'',
           ''Ramen'',
           ''Tempura'',
           ''Wagyu beef'',
           ''Street food in Harajuku''],
        info_culture =
          [''Traditional tea ceremonies'',
           ''Kabuki theater'',
           ''Modern art museums'',
           ''Anime culture''],
        info_budget = ''$$$ - Expensive but manageable with planning'',
        info_transport = ''Excellent public transportation with JR Pass for tourists''\<rparr>),
     (''paris'',
      \<lparr>info_best_time = ''Late spring (May-June) or early fall (September-October)'',
        info_highlights =
          [''Eiffel Tower'',
           ''Louvre Museum'',
           ''Notre-Dame'',
           ''Champs-'' @ [CHR 0xC3, CHR 0x89] @ ''lys'' @ [CHR 0xC3, CHR 0xA9] @ ''es''],
        info_food =
          [''Croissants'',
           ''French wine'',
           ''Cheese'',
           ''Fine dining'',
           ''Caf'' @ [CHR 0xC3, CHR 0xA9] @ '' culture''],
        info_culture =
          [''Art museums'',
           ''Historic architecture'',
           ''Fashion'',
           ''Literary history''],
        info_budget = ''$$$ - Expensive, especially dining and accommodation'',
        info_transport = ''Metro system covers the city well''\<rparr>),
     (''bali'',
      \<lparr>info_best_time = ''Dry season (April-October)'',
        info_highlights =
          [''Uluwatu Temple'',
           ''Rice terraces'',
           ''Beach clubs'',
           ''Volcano hikes''],
        info_food =
          [''Nasi Goreng'',
           ''Satay'',
           ''Fresh tropical fruits'',
           ''Balinese cuisine''],
        info_culture =
          [''Hindu temples'',
           ''Traditional dance'',
           ''Art villages'',
           ''Spiritual retreats''],
        info_budget = ''$$ - Very affordable for accommodation and food'',
        info_transport = ''Scooter rental popular, private drivers available''\<rparr>)]"

text \<open>
  The report iterates over \<^verbatim>\<open>info['highlights']\<close>, \<^verbatim>\<open>info['food']\<close> and
  \<^verbatim>\<open>info['culture']\<close>. In the fallback these three are strings, and iterating over a
  string yields its characters one by one: \<open>chars\<close>.
\<close>

definition chars :: "string \<Rightarrow> string list" where
  "chars s = map (\<lambda>c. [c]) s"

definition fallback_info :: "string \<Rightarrow> destination_info" where
  "fallback_info destination =
    \<lparr>info_best_time = ''Research local climate and peak seasons'',
      info_highlights = chars (''Popular attractions and landmarks in '' @ destination),
      info_food = chars (''Local cuisine and specialties of '' @ destination),
      info_culture = chars (''Cultural experiences and traditions in '' @ destination),
      info_budget = ''Research local cost of living and tourist prices'',
      info_transport = ''Local transportation options and tourist passes''\<rparr>"

text \<open>
  The loop over the keys with its \<^verbatim>\<open>break\<close> and \<^verbatim>\<open>else\<close>: the first entry whose key
  occurs in the lower-cased destination, or in whose key the lower-cased destination
  occurs; the fallback when there is none.
\<close>

definition lookup_destination :: "string \<Rightarrow> (string \<times> destination_info) option" where
  "lookup_destination destination =
    (let dest_key = lower destination
     in find (\<lambda>entry. str_in (fst entry) dest_key \<or> str_in dest_key (fst entry))
          destinations_db)"

text \<open>\<^verbatim>\<open>chr(10).join([f"- {item}" for item in items])\<close>\<close>

definition bullet_list :: "string list \<Rightarrow> string" where
  "bullet_list items = join nl (map (\<lambda>item. ''- '' @ item) items)"

text \<open>
  The emoji of the report headings, in UTF-8: U+1F4CD, U+1F31F, U+1F3DB U+FE0F,
  U+1F37D U+FE0F, U+1F3AD, U+1F4B0, U+1F68C.
\<close>

definition emoji_pin :: string where
  "emoji_pin = [CHR 0xF0, CHR 0x9F, CHR 0x93, CHR 0x8D]"

definition emoji_star :: string where
  "emoji_star = [CHR 0xF0, CHR 0x9F, CHR 0x8C, CHR 0x9F]"

definition emoji_building :: string where
  "emoji_building = [CHR 0xF0, CHR 0x9F, CHR 0x8F, CHR 0x9B, CHR 0xEF, CHR 0xB8, CHR 0x8F]"

definition emoji_plate :: string where
  "emoji_plate = [CHR 0xF0, CHR 0x9F, CHR 0x8D, CHR 0xBD, CHR 0xEF, CHR 0xB8, CHR 0x8F]"

definition emoji_masks :: string where
  "emoji_masks = [CHR 0xF0, CHR 0x9F, CHR 0x8E, CHR 0xAD]"

definition emoji_money :: string where
  "emoji_money = [CHR 0xF0, CHR 0x9F, CHR 0x92, CHR 0xB0]"

definition emoji_bus :: string where
  "emoji_bus = [CHR 0xF0, CHR 0x9F, CHR 0x9A, CHR 0x8C]"

text \<open>The f-string \<^verbatim>\<open>result\<close>.\<close>

definition research_report :: "string \<Rightarrow> destination_info \<Rightarrow> string" where
  "research_report destination info =
    ''## '' @ emoji_pin @ '' '' @ title destination @ '' Research'' @ nl @ nl
    @ ''**'' @ emoji_star @ '' Best Time to Visit:** '' @ info_best_time info @ nl @ nl
    @ ''**'' @ emoji_building @ '' Must-See Highlights:**'' @ nl
    @ bullet_list (info_highlights info) @ nl @ nl
    @ ''**'' @ emoji_plate @ '' Food & Dining:**'' @ nl
    @ bullet_list (info_food info) @ nl @ nl
    @ ''**'' @ emoji_masks @ '' Culture & Experiences:**'' @ nl
    @ bullet_list (info_culture info) @ nl @ nl
    @ ''**'' @ emoji_money @ '' Budget:** '' @ info_budget info @ nl @ nl
    @ ''**'' @ emoji_bus @ '' Transportation:** '' @ info_transport info @ nl"

text \<open>\<^verbatim>\<open>research_destination(destination, interests)\<close>; \<open>interests\<close> is not used.\<close>

definition research_destination :: "string \<Rightarrow> string \<Rightarrow> string" where
  "research_destination destination interests =
    (let info = (case lookup_destination destination of
                   Some entry \<Rightarrow> snd entry
                 | None \<Rightarrow> fallback_info destination)
     in research_report destination info)"

subsection \<open>Tool \<^verbatim>\<open>create_itinerary_template\<close>\<close>

text \<open>\<^verbatim>\<open>str(n)\<close> on an integer, as the f-strings format \<^verbatim>\<open>duration_days\<close> and \<^verbatim>\<open>day\<close>.\<close>

function str_of_nat :: "nat \<Rightarrow> string" where
  "str_of_nat n =
    (if n < 10 then [char_of (48 + n)]
     else str_of_nat (n div 10) @ [char_of (48 + n mod 10)])"
  by pat_completeness auto
termination
  by (relation "measure (\<lambda>n. n)") auto

declare str_of_nat.simps [simp del]

definition str_of_int :: "int \<Rightarrow> string" where
  "str_of_int i = (if i < 0 then ''-'' @ str_of_nat (nat (- i)) else str_of_nat (nat i))"

text \<open>The calendar U+1F5D3 U+FE0F and the light bulb U+1F4A1, in UTF-8.\<close>

definition emoji_calendar :: string where
  "emoji_calendar = [CHR 0xF0, CHR 0x9F, CHR 0x97, CHR 0x93, CHR 0xEF, CHR 0xB8, CHR 0x8F]"

definition emoji_bulb :: string where
  "emoji_bulb = [CHR 0xF0, CHR 0x9F, CHR 0x92, CHR 0xA1]"

text \<open>The text that the loop \<^verbatim>\<open>for day in range(1, duration_days + 1)\<close> appends for one day.\<close>

definition day_section :: "int \<Rightarrow> string" where
  "day_section d =
    ''### Day '' @ str_of_int d @ nl
    @ ''Summary: See structured itinerary above.'' @ nl @ nl @ ''---'' @ nl @ nl"

text \<open>
  \<^verbatim>\<open>create_itinerary_template(destination, duration_days, travel_style)\<close>. The lookups
  in \<^verbatim>\<open>style_activities\<close> and \<^verbatim>\<open>style_notes\<close> are left out: the source never reads
  their results \<^verbatim>\<open>activities\<close> and \<^verbatim>\<open>default_notes\<close>.
\<close>

definition create_itinerary_template ::
  "env \<Rightarrow> (checklist_payload \<Rightarrow> string) \<Rightarrow> (itinerary_payload \<Rightarrow> string)
     \<Rightarrow> string \<Rightarrow> int \<Rightarrow> string \<Rightarrow> string" where
  "create_itinerary_template e dumps_cl dumps_it destination duration_days travel_style =
    (let capped = (if 14 < duration_days then 14 else duration_days);
         itinerary = generate_itinerary_data e dumps_cl dumps_it destination capped
                       travel_style;
         header = ''## '' @ emoji_calendar @ '' '' @ title destination @ '' Itinerary (''
                  @ str_of_int capped @ '' Days)'' @ nl @ nl
                  @ ''*Travel Style: '' @ title travel_style @ ''*'' @ nl @ nl
                  @ it_json_tag itinerary @ nl @ nl;
         per_day = concat (map day_section [1..capped]);
         checklist_res = generate_checklist dumps_cl destination ''Trip''
     in header @ per_day
        @ cl_json_tag checklist_res @ nl @ nl
        @ ''## '' @ emoji_bulb @ '' Tips & Notes'' @ nl
        @ ''*Add your own insights and discoveries here...*'' @ nl)"

subsection \<open>Dispatch graph\<close>

text \<open>
  A tool call of a model response: \<^verbatim>\<open>tool_call.get("name")\<close>, which may be absent, and
  the arguments, which only the tool that runs the call reads.
\<close>

record tool_call =
  call_name :: "string option"
  call_args :: "(string \<times> string) list"

text \<open>
  Messages. Only a message of the model carries \<^verbatim>\<open>tool_calls\<close>;
  \<^verbatim>\<open>getattr(response, "tool_calls", None)\<close> is \<open>None\<close> on the others. The tool node
  answers each call with the output of the tool, or with an error message when the call
  names none of its tools.
\<close>

datatype message =
    Human_message string
  | AI_message string "tool_call list"
  | Tool_message string string
  | Tool_error "string option"

fun tool_calls_of :: "message \<Rightarrow> tool_call list option" where
  "tool_calls_of (AI_message text calls) = Some calls"
| "tool_calls_of m = None"

text \<open>
  \<^verbatim>\<open>AgentState\<close>, read with \<^verbatim>\<open>state.get\<close>: every key but \<^verbatim>\<open>messages\<close> may be absent.
  A front-end tool descriptor is represented by its name.
\<close>

record agent_state =
  messages :: "message list"
  content :: "string option"
  group_id :: "string option"
  groupId :: "string option"
  tools :: "string list option"

text \<open>The names of \<^verbatim>\<open>backend_tools\<close>: the \<^verbatim>\<open>@tool\<close> decorator names a tool after its function.\<close>

definition backend_tool_names :: "string list" where
  "backend_tool_names =
    [''research_destination'', ''create_itinerary_template'', ''suggest_improvements'',
     ''add_planning_section'']"

text \<open>\<^verbatim>\<open>route_to_tool_node(response)\<close>\<close>

definition route_to_tool_node :: "message \<Rightarrow> bool" where
  "route_to_tool_node response =
    (case tool_calls_of response of
       None \<Rightarrow> False
     | Some calls \<Rightarrow>
         if calls = [] then False
         else list_ex (\<lambda>c. case call_name c of
                              None \<Rightarrow> False
                            | Some n \<Rightarrow> n \<in> set backend_tool_names) calls)"

text \<open>The fixed text of the system message, around the group id and the document.\<close>

definition system_prompt_part1 :: string where
  "system_prompt_part1 =
     ''You are Frizzle, an expert AI travel planning and brainstorming assist''
     @ ''ant. Your specialty is helping individuals and groups create amazing c''
     @ ''ollaborative documents for travel plans, research projects, startup id''
     @ ''eas, and more.'' @ nl
     @ nl
     @ ''CORE CAPABILITIES:'' @ nl
     @ [CHR 0xF0, CHR 0x9F, CHR 0x8C, CHR 0x8D] @ '' Travel Planning: Research destinations, create itineraries, suggest ''
     @ ''activities'' @ nl
     @ [CHR 0xF0, CHR 0x9F, CHR 0x93, CHR 0x9D] @ '' Document Building: Structure content, add sections, improve organiza''
     @ ''tion  '' @ nl
     @ [CHR 0xF0, CHR 0x9F, CHR 0xA4, CHR 0x9D] @ '' Collaboration: Support group planning and decision-making'' @ nl
     @ [CHR 0xF0, CHR 0x9F, CHR 0x92, CHR 0xA1] @ '' Creative Brainstorming: Help develop ideas for any project or plan'' @ nl
     @ nl
     @ ''PERSONALITY & TONE:'' @ nl
     @ ''- Enthusiastic and helpful, but not overly casual'' @ nl
     @ ''- Detail-oriented and practical'' @ nl
     @ ''- Encouraging of collaboration and input from all group members'' @ nl
     @ ''- Clear and organized in your responses'' @ nl
     @ nl
     @ ''CURRENT CONTEXT:'' @ nl
     @ ''- Group ID: ''"

definition system_prompt_part2 :: string where
  "system_prompt_part2 =
     nl
     @ ''- Current document (markdown snapshot):'' @ nl
     @ nl
     @ ''```markdown'' @ nl"

definition system_prompt_part3 :: string where
  "system_prompt_part3 =
     nl
     @ ''```'' @ nl
     @ nl
     @ ''AVAILABLE TOOLS:'' @ nl
     @ ''- research_destination: Get detailed info about travel destinations'' @ nl
     @ ''- create_itinerary_template: Build structured day-by-day plans'' @ nl
     @ ''- suggest_improvements: Analyze content and recommend enhancements'' @ nl
     @ ''- add_planning_section: Add specialized sections (checklists, budgets,''
     @ '' etc.)'' @ nl
     @ ''- updateDocument: Update the main document content (via frontend actio''
     @ ''n)'' @ nl
     @ ''- addSection: Add new sections to the document (via frontend action)'' @ nl
     @ nl
     @ ''GUIDELINES:'' @ nl
     @ ''1. Always ask clarifying questions when requests are vague'' @ nl
     @ ''2. Suggest specific, actionable improvements to documents'' @ nl
     @ ''3. Use your tools proactively to provide detailed, helpful information'' @ nl
     @ ''4. Encourage group members to contribute their own ideas and preferenc''
     @ ''es'' @ nl
     @ ''5. Keep content well-structured with clear headings and organization'' @ nl
     @ ''6. Be mindful that multiple people may be contributing to the same doc''
     @ ''ument'' @ nl
     @ nl
     @ ''SOURCE OF TRUTH POLICY:'' @ nl
     @ ''- The shared document snapshot above is the canonical state for the pl''
     @ ''an. If prior chat messages conflict with the document, prefer the docu''
     @ ''ment.'' @ nl
     @ ''- Do NOT change the trip duration unless explicitly asked to do so. Wh''
     @ ''en a user asks to modify a single day (e.g., '' @ [CHR 0x22] @ ''visit X on Day 2'' @ [CHR 0x22] @ ''), upda''
     @ ''te only that day'' @ [CHR 0x27] @ ''s content and preserve the current total duration fro''
     @ ''m the document.'' @ nl
     @ ''- When the duration is explicitly changed, update the itinerary header''
     @ '' (e.g., '' @ [CHR 0x22] @ ''Itinerary (N Days)'' @ [CHR 0x22] @ '') and day sections accordingly, then call ''
     @ [CHR 0x27] @ ''updateDocument'' @ [CHR 0x27] @ '' with the fully updated markdown.'' @ nl
     @ nl
     @ ''CRITICAL TOOL USAGE:'' @ nl
     @ ''7. Whenever you generate content meant for the shared document, you MU''
     @ ''ST call the '' @ [CHR 0x27] @ ''updateDocument'' @ [CHR 0x27] @ '' action with the FULL updated markdown (me''
     @ ''rge your changes into the existing content). Do not only reply in chat''
     @ ''.'' @ nl
     @ ''8. If the user asks to add a specific section, prefer calling '' @ [CHR 0x27] @ ''addSect''
     @ ''ion'' @ [CHR 0x27] @ '' (frontend action) and then '' @ [CHR 0x27] @ ''updateDocument'' @ [CHR 0x27] @ '' with the resulting co''
     @ ''ntent if needed.'' @ nl
     @ ''9. After using backend tools (e.g., research_destination, create_itine''
     @ ''rary_template), integrate their results into the document by calling '' @ [CHR 0x27]
     @ ''updateDocument'' @ [CHR 0x27] @ '' so collaborators see changes in the editor.'' @ nl
     @ ''10. JSON RENDERING REQUIREMENT: For itineraries or checklists, always ''
     @ ''use the tools that emit fenced JSON tags (create_itinerary_template an''
     @ ''d add_planning_section with '' @ [CHR 0x22] @ ''checklist'' @ [CHR 0x22] @ ''). Do not write free-form markd''
     @ ''own versions without these JSON fences, or the frontend cannot render ''
     @ ''the rich components.'' @ nl
     @ nl
     @ ''SPECIAL HANDLING FOR EDIT REQUESTS:'' @ nl
     @ ''- If a user requests adjustments (e.g., '' @ [CHR 0x22] @ ''make the trip 5 days instead ''
     @ ''of 4'' @ [CHR 0x22] @ ''), infer missing details like destination or current duration fro''
     @ ''m the existing document snapshot above. Do not re-ask for data that is''
     @ '' already present in the document unless it is ambiguous.'' @ nl
     @ ''- When changing durations, update all day headers and related content ''
     @ ''accordingly, then call '' @ [CHR 0x27] @ ''updateDocument'' @ [CHR 0x27] @ '' with the full updated markdown''
     @ ''.'' @ nl
     @ nl
     @ ''Remember: Your goal is to help create comprehensive, useful documents ''
     @ ''that serve as excellent planning resources for individuals or groups!''"

text \<open>\<^verbatim>\<open>a or b\<close> on two optional strings: \<open>a\<close> unless it is absent or empty.\<close>

definition str_or :: "string option \<Rightarrow> string option \<Rightarrow> string option" where
  "str_or a b = (case a of None \<Rightarrow> b | Some s \<Rightarrow> if s = [] then b else a)"

text \<open>
  What the model is called with: the names of the bound tools (those of the state, then
  the backend tools), the flag \<^verbatim>\<open>parallel_tool_calls\<close>, the system message and the
  prior messages. The model itself is the parameter \<open>llm\<close> of the chat node.
\<close>

record model_request =
  bound_tools :: "string list"
  parallel_tool_calls :: bool
  system_message :: string
  prior_messages :: "message list"

definition build_request :: "agent_state \<Rightarrow> model_request" where
  "build_request state =
    (let group = (case str_or (str_or (group_id state) (groupId state))
                         (Some ''Solo planning session'') of
                    Some g \<Rightarrow> g | None \<Rightarrow> []);
         content_str = (case str_or (content state) (Some []) of
                          Some c \<Rightarrow> c | None \<Rightarrow> []);
         max_chars = 8000;
         doc_snapshot = take max_chars content_str;
         ms = messages state;
         prior = (if 6 < length ms then drop (length ms - 6) ms else ms)
     in \<lparr>bound_tools = (case tools state of Some ts \<Rightarrow> ts | None \<Rightarrow> [])
                          @ backend_tool_names,
         parallel_tool_calls = False,
         system_message = system_prompt_part1 @ group @ system_prompt_part2
                          @ doc_snapshot @ system_prompt_part3,
         prior_messages = prior\<rparr>)"

datatype node = Chat_node | Tool_node | END

text \<open>\<^verbatim>\<open>Command(goto=..., update={"messages": [...]})\<close>\<close>

record command =
  goto :: node
  update_messages :: "message list"

text \<open>\<^verbatim>\<open>chat_node(state, config)\<close>\<close>

definition chat_node :: "(model_request \<Rightarrow> message) \<Rightarrow> agent_state \<Rightarrow> command" where
  "chat_node llm state =
    (let response = llm (build_request state)
     in if route_to_tool_node response
        then \<lparr>goto = Tool_node, update_messages = [response]\<rparr>
        else \<lparr>goto = END, update_messages = [response]\<rparr>)"

text \<open>
  \<^verbatim>\<open>ToolNode(tools=backend_tools)\<close> is the prebuilt node of the graph library. It is
  modelled by what it does with the calls of the last message: a call that names one of
  the tools it was built with is run (\<open>invoke\<close> stands for the run of the named backend
  tool on the call), any other call is answered by an error message and runs nothing.
  On a state whose last message is not a message of the model it raises: \<open>None\<close>.
\<close>

definition run_tool_call :: "(string \<Rightarrow> tool_call \<Rightarrow> string) \<Rightarrow> tool_call \<Rightarrow> message" where
  "run_tool_call invoke c =
    (case call_name c of
       None \<Rightarrow> Tool_error None
     | Some n \<Rightarrow>
         if n \<in> set backend_tool_names then Tool_message n (invoke n c)
         else Tool_error (Some n))"

definition tool_node ::
  "(string \<Rightarrow> tool_call \<Rightarrow> string) \<Rightarrow> agent_state \<Rightarrow> message list option" where
  "tool_node invoke state =
    (if messages state = [] then None
     else (case last (messages state) of
             AI_message text calls \<Rightarrow> Some (map (run_tool_call invoke) calls)
           | _ \<Rightarrow> None))"

text \<open>The update of the state by the messages a node returns: they are appended.\<close>

definition add_messages :: "agent_state \<Rightarrow> message list \<Rightarrow> agent_state" where
  "add_messages state ms = state\<lparr>messages := messages state @ ms\<rparr>"

text \<open>
  One step of the compiled graph: the chat node goes where its command says, the tool
  node has its edge to the chat node, and nothing follows \<open>END\<close>.
\<close>

fun graph_step ::
  "(model_request \<Rightarrow> message) \<Rightarrow> (string \<Rightarrow> tool_call \<Rightarrow> string)
     \<Rightarrow> node \<times> agent_state \<Rightarrow> (node \<times> agent_state) option" where
  "graph_step llm invoke (Chat_node, state) =
    (let cmd = chat_node llm state
     in Some (goto cmd, add_messages state (update_messages cmd)))"
| "graph_step llm invoke (Tool_node, state) =
    (case tool_node invoke state of
       None \<Rightarrow> None
     | Some ms \<Rightarrow> Some (Chat_node, add_messages state ms))"
| "graph_step llm invoke (END, state) = None"

text \<open>
  The run of the graph from a node. The source bounds the number of rounds by nothing, so
  the run takes fuel: \<open>None\<close> when the fuel runs out before \<open>END\<close> (or the tool node
  raises), the final state otherwise.
\<close>

fun run_graph ::
  "(model_request \<Rightarrow> message) \<Rightarrow> (string \<Rightarrow> tool_call \<Rightarrow> string) \<Rightarrow> nat
     \<Rightarrow> node \<times> agent_state \<Rightarrow> agent_state option" where
  "run_graph llm invoke fuel (END, state) = Some state"
| "run_graph llm invoke 0 (n, state) = None"
| "run_graph llm invoke (Suc fuel) (n, state) =
    (case graph_step llm invoke (n, state) of
       None \<Rightarrow> None
     | Some c \<Rightarrow> run_graph llm invoke fuel c)"

text \<open>An environment without credential, in which every request raises.\<close>

definition offline_env :: env where
  "offline_env = \<lparr>api_key = None,
                   get_geoname = (\<lambda>destination key. Raised),
                   get_radius = (\<lambda>lon lat kinds limit key. Raised),
                   get_detail = (\<lambda>xid key. Raised)\<rparr>"

text \<open>A state and two tool calls, one of a front-end tool and one of a backend tool.\<close>

definition frontend_call :: tool_call where
  "frontend_call = \<lparr>call_name = Some ''updateDocument'', call_args = [(''content'', ''# Plan'')]\<rparr>"

definition backend_call :: tool_call where
  "backend_call =
     \<lparr>call_name = Some ''research_destination'', call_args = [(''destination'', ''Tokyo'')]\<rparr>"

definition example_state :: agent_state where
  "example_state =
     \<lparr>messages = [Human_message ''Plan a trip to Tokyo''], content = Some ''# Plan'',
       group_id = None, groupId = None, tools = Some [''updateDocument'', ''addSection'']\<rparr>"

text \<open>The payload of a three-day balanced trip to Lisbon, planned from the static catalog.\<close>

definition lisbon_trip :: itinerary_payload where
  "lisbon_trip = it_data (generate_itinerary_data offline_env (\<lambda>p. []) (\<lambda>p. [])
                            ''Lisbon'' 3 ''balanced'')"

section \<open>Properties\<close>

subsection \<open>Checklist\<close>

text \<open>
  C3. For every destination and context (and whatever the JSON serialiser does),
  \<^verbatim>\<open>_generate_checklist\<close> returns a payload with version 1 whose sections are, in this
  order, Before You Go, Pack & Prepare and During Trip, with 7, 6 and 4 items, and the
  \<^verbatim>\<open>checked\<close> flag of every one of the 17 items is false.
\<close>

theorem generate_checklist_shape:
  "cl_version (cl_data (generate_checklist dumps destination context)) = 1
   \<and> map section_title (cl_sections (cl_data (generate_checklist dumps destination context)))
       = [''Before You Go'', ''Pack & Prepare'', ''During Trip'']
   \<and> map (\<lambda>s. length (section_items s))
         (cl_sections (cl_data (generate_checklist dumps destination context)))
       = [7, 6, 4]
   \<and> concat (map (\<lambda>s. map item_checked (section_items s))
         (cl_sections (cl_data (generate_checklist dumps destination context))))
       = replicate 17 False"
  by (simp add: generate_checklist_def Let_def checklist_sections_def new_item_def
        eval_nat_numeral)

subsection \<open>Days of the itinerary\<close>

text \<open>
  The search for an unused name stays in range, and it ends on an activity whose name is
  not used whenever one of the next \<open>length acts - spins\<close> positions holds one.
\<close>

lemma skip_used_lt: "k < length acts \<Longrightarrow> skip_used acts used k spins < length acts"
proof (induction acts used k spins rule: skip_used.induct)
  case (1 acts used_names k spins)
  show ?case
  proof (cases "act_name (acts ! k) \<in> used_names \<and> spins < length acts")
    case True
    then have "0 < length acts" by auto
    then have "(k + 1) mod length acts < length acts" by (rule mod_less_divisor)
    with 1 True show ?thesis by (subst skip_used.simps) simp
  next
    case False
    with 1 show ?thesis by (subst skip_used.simps) auto
  qed
qed

lemma skip_used_unused:
  "k < length acts \<Longrightarrow>
   \<exists>t < length acts - spins. act_name (acts ! ((k + t) mod length acts)) \<notin> used \<Longrightarrow>
   act_name (acts ! skip_used acts used k spins) \<notin> used"
proof (induction acts used k spins rule: skip_used.induct)
  case (1 acts used_names k spins)
  let ?n = "length acts"
  from "1.prems"(2) obtain t where t: "t < ?n - spins"
    "act_name (acts ! ((k + t) mod ?n)) \<notin> used_names" by blast
  show ?case
  proof (cases "act_name (acts ! k) \<in> used_names \<and> spins < ?n")
    case True
    have "t \<noteq> 0" using t(2) True "1.prems"(1) by (cases "t = 0") auto
    then obtain t' where t': "t = Suc t'" by (cases t) auto
    have "0 < ?n" using True by auto
    then have lt: "(k + 1) mod ?n < ?n" by (rule mod_less_divisor)
    have "((k + 1) mod ?n + t') mod ?n = (k + t) mod ?n"
      unfolding t' by (simp add: mod_add_left_eq)
    with t have "\<exists>u < ?n - (spins + 1). act_name (acts ! (((k + 1) mod ?n + u) mod ?n)) \<notin> used_names"
      using t' by (intro exI[of _ t']) auto
    with "1.IH"[OF True lt] have "act_name (acts ! skip_used acts used_names ((k + 1) mod ?n) (spins + 1)) \<notin> used_names" .
    with True show ?thesis by (subst skip_used.simps) simp
  next
    case False
    then consider "act_name (acts ! k) \<notin> used_names" | "\<not> spins < ?n" by blast
    then show ?thesis
    proof cases
      case 1
      then show ?thesis by (subst skip_used.simps) simp
    next
      case 2
      with t(1) show ?thesis by simp
    qed
  qed
qed


lemma skip_used_fresh:
  assumes k: "k < length acts" and ex: "\<exists>x \<in> set acts. act_name x \<notin> used"
  shows "act_name (acts ! skip_used acts used k 0) \<notin> used"
proof -
  let ?n = "length acts"
  from ex obtain m where m: "m < ?n" "act_name (acts ! m) \<notin> used"
    by (auto simp: in_set_conv_nth)
  define t where "t = (m + ?n - k) mod ?n"
  have "0 < ?n" using k by (cases acts) auto
  then have t_lt: "t < ?n - 0" unfolding t_def by simp
  have "(k + t) mod ?n = (k + (m + ?n - k)) mod ?n"
    unfolding t_def by (simp add: mod_add_right_eq)
  also have "\<dots> = (m + ?n) mod ?n" using k by simp
  also have "\<dots> = m" using m(1) by simp
  finally have "act_name (acts ! ((k + t) mod ?n)) \<notin> used" using m(2) by simp
  with t_lt have "\<exists>t < ?n - 0. act_name (acts ! ((k + t) mod ?n)) \<notin> used" by blast
  with k show ?thesis by (rule skip_used_unused)
qed

lemma fresh_name_exists:
  assumes "3 \<le> card (act_name ` set acts)" and "finite used" and "card used \<le> 2"
  shows "\<exists>x \<in> set acts. act_name x \<notin> used"
proof (rule ccontr)
  assume "\<not> (\<exists>x \<in> set acts. act_name x \<notin> used)"
  then have "act_name ` set acts \<subseteq> used" by auto
  with assms(2) have "card (act_name ` set acts) \<le> card used" by (rule card_mono)
  with assms(1,3) show False by simp
qed

lemma build_day_parts:
  "parts (build_day cur destination acts i) =
    (let start = (i * 3) mod length acts;
         k1 = skip_used acts {} ((start + 0) mod length acts) 0;
         a1 = acts ! k1;
         k2 = skip_used acts {act_name a1} ((start + 1) mod length acts) 0;
         a2 = acts ! k2;
         k3 = skip_used acts {act_name a2, act_name a1} ((start + 2) mod length acts) 0;
         a3 = acts ! k3;
         mk = (\<lambda>label act.
                \<lparr>timeOfDay = label,
                  part_activity = \<lparr>pa_name = act_name act,
                                     pa_description = act_description act,
                                     pa_category = act_category act,
                                     pa_location = destination\<rparr>,
                  part_cost = activity_cost cur (act_category act)\<rparr>)
     in [mk ''Morning'' a1, mk ''Afternoon'' a2, mk ''Evening'' a3])"
  by (simp add: build_day_def labels_def add_part_def Let_def eval_nat_numeral)

lemma build_day_labels:
  "map timeOfDay (parts (build_day cur destination acts i)) =
     [''Morning'', ''Afternoon'', ''Evening'']"
  by (simp add: build_day_parts Let_def)

lemma build_day_distinct:
  assumes "3 \<le> card (act_name ` set acts)"
  shows "distinct (map (\<lambda>q. pa_name (part_activity q)) (parts (build_day cur destination acts i)))"
proof -
  let ?n = "length acts"
  have "set acts \<noteq> {}" using assms by auto
  then have n: "0 < ?n" by simp
  define start where "start = (i * 3) mod ?n"
  define k1 where "k1 = skip_used acts {} ((start + 0) mod ?n) 0"
  define k2 where "k2 = skip_used acts {act_name (acts ! k1)} ((start + 1) mod ?n) 0"
  define k3 where "k3 = skip_used acts {act_name (acts ! k2), act_name (acts ! k1)}
                          ((start + 2) mod ?n) 0"
  have "act_name (acts ! k2) \<notin> {act_name (acts ! k1)}"
    unfolding k2_def using n assms
    by (intro skip_used_fresh fresh_name_exists) simp_all
  moreover have "act_name (acts ! k3) \<notin> {act_name (acts ! k2), act_name (acts ! k1)}"
    unfolding k3_def using n assms
    by (intro skip_used_fresh fresh_name_exists) (simp_all add: card_insert_if)
  ultimately show ?thesis
    by (auto simp: build_day_parts Let_def start_def k1_def k2_def k3_def)
qed

text \<open>
  C1. For every \<open>duration_days\<close> from 1 to 14, every travel style, destination and
  environment, the payload of \<^verbatim>\<open>_generate_itinerary_data\<close> has exactly \<open>duration_days\<close>
  days; the parts of each day are labelled Morning, Afternoon, Evening, in this order; and
  when the activity pool in use (the fetched activities, or the catalog entry when nothing
  was fetched) has at least 3 distinct names, the three activity names of each day are
  pairwise different.
\<close>

theorem itinerary_days_shape:
  "1 \<le> duration_days \<Longrightarrow> duration_days \<le> 14 \<Longrightarrow>
   (let pool = select_activities
                 (fetch_activities_from_api e destination travel_style
                    (max 6 (duration_days * 3))) travel_style;
        ds = days (it_data (generate_itinerary_data e dumps_cl dumps_it destination
                              duration_days travel_style))
    in int (length ds) = duration_days
       \<and> (\<forall>d \<in> set ds.
             map timeOfDay (parts d) = [''Morning'', ''Afternoon'', ''Evening'']
             \<and> (3 \<le> card (act_name ` set pool)
                  \<longrightarrow> distinct (map (\<lambda>q. pa_name (part_activity q)) (parts d)))))"
  by (auto simp: generate_itinerary_data_def build_days_def Let_def build_day_labels
        build_day_distinct)

theorem itinerary_days_shape_witness:
  "(1::int) \<le> 2 \<and> (2::int) \<le> 14
   \<and> 3 \<le> card (act_name ` set (select_activities
                 (fetch_activities_from_api offline_env ''Bali'' ''food'' (max 6 (2 * 3)))
                 ''food''))
   \<and> int (length (days (it_data (generate_itinerary_data offline_env (\<lambda>p. []) (\<lambda>p. [])
                                     ''Bali'' 2 ''food'')))) = 2
   \<and> map timeOfDay (parts (days (it_data (generate_itinerary_data offline_env (\<lambda>p. [])
                                     (\<lambda>p. []) ''Bali'' 2 ''food'')) ! 1))
       = [''Morning'', ''Afternoon'', ''Evening'']
   \<and> distinct (map (\<lambda>q. pa_name (part_activity q))
                 (parts (days (it_data (generate_itinerary_data offline_env (\<lambda>p. [])
                                          (\<lambda>p. []) ''Bali'' 2 ''food'')) ! 1)))"
proof -
  let ?pool = "select_activities
                 (fetch_activities_from_api offline_env ''Bali'' ''food'' (max 6 (2 * 3)))
                 ''food''"
  let ?ds = "days (it_data (generate_itinerary_data offline_env (\<lambda>p. []) (\<lambda>p. [])
                              ''Bali'' 2 ''food''))"
  have T: "int (length ?ds) = 2
           \<and> (\<forall>d \<in> set ?ds.
                 map timeOfDay (parts d) = [''Morning'', ''Afternoon'', ''Evening'']
                 \<and> (3 \<le> card (act_name ` set ?pool)
                      \<longrightarrow> distinct (map (\<lambda>q. pa_name (part_activity q)) (parts d))))"
    using itinerary_days_shape [where duration_days = 2 and e = offline_env
        and destination = "''Bali''" and travel_style = "''food''"
        and dumps_cl = "\<lambda>p. []" and dumps_it = "\<lambda>p. []"]
    unfolding Let_def by simp
  have c: "3 \<le> card (act_name ` set ?pool)"
    by (simp add: fetch_activities_from_api_def offline_env_def select_activities_def
          catalog_def dict_get_def new_activity_def)
  from T have "length ?ds = 2" by simp
  then have "?ds ! 1 \<in> set ?ds" by simp
  with T c show ?thesis by simp
qed

subsection \<open>Money\<close>

text \<open>
  C4. For every amount and every currency, the estimate that \<^verbatim>\<open>to_money\<close> produces is a
  non-negative integer and a multiple of the rounding unit of the currency: a multiple of
  50 for JPY, of 1000 for IDR and of 1 for USD and EUR. A baseline of 37 becomes 5550 yen.
\<close>

theorem to_money_multiple_of_unit:
  "0 \<le> estimate (to_money cur amount_usd)
   \<and> unit_of cur dvd estimate (to_money cur amount_usd)
   \<and> 50 dvd estimate (to_money \<lparr>cur_code = ''JPY'', cur_symbol = s\<rparr> amount_usd)
   \<and> 1000 dvd estimate (to_money \<lparr>cur_code = ''IDR'', cur_symbol = s\<rparr> amount_usd)
   \<and> 1 dvd estimate (to_money \<lparr>cur_code = ''USD'', cur_symbol = s\<rparr> amount_usd)
   \<and> 1 dvd estimate (to_money \<lparr>cur_code = ''EUR'', cur_symbol = s\<rparr> amount_usd)
   \<and> estimate (to_money \<lparr>cur_code = ''JPY'', cur_symbol = s\<rparr> 37) = 5550"
proof -
  have gen: "0 \<le> estimate (to_money c a) \<and> unit_of c dvd estimate (to_money c a)" for c a
    by (simp add: to_money_def Let_def max_def)
  have jpy: "unit_of \<lparr>cur_code = ''JPY'', cur_symbol = s\<rparr> = 50"
    and idr: "unit_of \<lparr>cur_code = ''IDR'', cur_symbol = s\<rparr> = 1000"
    by (simp_all add: unit_of_def rounding_unit_def dict_get_def)
  have "py_round (37 * 150 / 50) = 111"
    by (simp add: py_round_def Let_def)
  then have ex: "estimate (to_money \<lparr>cur_code = ''JPY'', cur_symbol = s\<rparr> 37) = 5550"
    by (simp add: to_money_def Let_def jpy scale_of_def scale_map_def dict_get_def)
  from gen [of "\<lparr>cur_code = ''JPY'', cur_symbol = s\<rparr>" amount_usd]
       gen [of "\<lparr>cur_code = ''IDR'', cur_symbol = s\<rparr>" amount_usd]
       gen [of cur amount_usd] ex
  show ?thesis by (simp add: jpy idr)
qed

subsection \<open>Cost summary\<close>

lemma foldl_add: "foldl (\<lambda>t p. t + f p) (a::int) xs = a + sum_list (map f xs)"
  by (induction xs arbitrary: a) simp_all

lemma activities_total_sum:
  "activities_total ds = sum_list (map (\<lambda>q. estimate (part_cost q)) (concat (map parts ds)))"
proof -
  have "foldl (\<lambda>total d. foldl (\<lambda>t p. t + estimate (part_cost p)) total (parts d)) a ds
        = a + sum_list (map (\<lambda>q. estimate (part_cost q)) (concat (map parts ds)))" for a
    by (induction ds arbitrary: a) (simp_all add: foldl_add)
  then show ?thesis by (simp add: activities_total_def)
qed

lemma build_day_costs:
  "map part_cost (parts (build_day cur destination acts i))
   = map (\<lambda>q. activity_cost cur (pa_category (part_activity q)))
       (parts (build_day cur destination acts i))"
  by (simp add: build_day_parts Let_def)

text \<open>
  C7, as written, multiplies the accommodation estimate per night by the number of nights
  and the transport and food estimates by the number of days. A trip of three days has two
  nights. For the three-day balanced trip to Lisbon (USD, three days of three parts each)
  the components are 600, 120 per night, 102 for the activities, 12 and 35 per day, and the
  total of the payload is 1203: it is not the sum with two nights, which is 1083.
\<close>

theorem total_cost_nights_counterexample:
  "durationDays lisbon_trip = 3
   \<and> length (days lisbon_trip) = 3
   \<and> estimate (flights (breakdown (summary lisbon_trip))) = 600
   \<and> estimate (accommodationPerNight (breakdown (summary lisbon_trip))) = 120
   \<and> sum_list (map (\<lambda>q. estimate (part_cost q)) (concat (map parts (days lisbon_trip)))) = 102
   \<and> estimate (localTransportPerDay (breakdown (summary lisbon_trip))) = 12
   \<and> estimate (foodPerDay (breakdown (summary lisbon_trip))) = 35
   \<and> estimate (estimatedTotalCost (summary lisbon_trip)) = 1203
   \<and> estimate (estimatedTotalCost (summary lisbon_trip))
       \<noteq> estimate (flights (breakdown (summary lisbon_trip)))
         + estimate (accommodationPerNight (breakdown (summary lisbon_trip)))
           * (durationDays lisbon_trip - 1)
         + sum_list (map (\<lambda>q. estimate (part_cost q)) (concat (map parts (days lisbon_trip))))
         + estimate (localTransportPerDay (breakdown (summary lisbon_trip)))
           * durationDays lisbon_trip
         + estimate (foodPerDay (breakdown (summary lisbon_trip))) * durationDays lisbon_trip"
  by code_simp

text \<open>
  C7, amended. The accommodation is charged once per day of the trip, not once per night
  between two days: \<^verbatim>\<open>total_estimate\<close> adds \<^verbatim>\<open>accommodation_per_night * duration_days\<close>.
  For every itinerary payload, the estimate of \<^verbatim>\<open>estimatedTotalCost\<close> is the flights
  estimate, plus the accommodation estimate per night times \<^verbatim>\<open>durationDays\<close>, plus the
  sum of the cost estimates of all parts of all days, plus the local transport estimate
  per day times \<^verbatim>\<open>durationDays\<close>, plus the food estimate per day times
  \<^verbatim>\<open>durationDays\<close>, where \<^verbatim>\<open>durationDays\<close> is the requested duration as the payload
  records it. Each component is a USD baseline (600, 120, the baseline of the category,
  12, 35) converted by \<^verbatim>\<open>to_money\<close> into the currency of the itinerary.
\<close>

theorem total_cost_is_sum:
  "(let p = it_data (generate_itinerary_data e dumps_cl dumps_it destination duration_days
                       travel_style);
        b = breakdown (summary p);
        cur = it_currency p
    in estimate (estimatedTotalCost (summary p))
         = estimate (flights b)
           + estimate (accommodationPerNight b) * durationDays p
           + sum_list (map (\<lambda>q. estimate (part_cost q)) (concat (map parts (days p))))
           + estimate (localTransportPerDay b) * durationDays p
           + estimate (foodPerDay b) * durationDays p
       \<and> durationDays p = duration_days
       \<and> cur = resolve_currency destination
       \<and> flights b = to_money cur 600
       \<and> accommodationPerNight b = to_money cur 120
       \<and> localTransportPerDay b = to_money cur 12
       \<and> foodPerDay b = to_money cur 35
       \<and> concat (map (\<lambda>d. map part_cost (parts d)) (days p))
           = concat (map (\<lambda>d. map (\<lambda>q. activity_cost cur (pa_category (part_activity q)))
                                 (parts d)) (days p)))"
  by (simp add: generate_itinerary_data_def Let_def activities_total_sum build_days_def
        comp_def build_day_costs)

subsection \<open>Fallback to the static catalog\<close>

text \<open>
  C5. Without the credential \<^verbatim>\<open>OPENTRIPMAP_API_KEY\<close> the adapter returns the empty list;
  and whenever the adapter returns the empty list, the days of the itinerary are built
  from the catalog entry of the travel style, or from the balanced entry when the style is
  none of adventure, relaxed, cultural, food, balanced.
\<close>

theorem catalog_fallback:
  "(api_key e = None \<longrightarrow> fetch_activities_from_api e destination travel_style limit = [])
   \<and> (fetch_activities_from_api e destination travel_style (max 6 (duration_days * 3)) = []
        \<longrightarrow> days (it_data (generate_itinerary_data e dumps_cl dumps_it destination
                              duration_days travel_style))
             = build_days (resolve_currency destination) destination
                 (if travel_style \<in> {''adventure'', ''relaxed'', ''cultural'', ''food'',
                                       ''balanced''}
                  then the (map_of catalog travel_style)
                  else the (map_of catalog ''balanced''))
                 duration_days)"
  by (auto simp: fetch_activities_from_api_def generate_itinerary_data_def Let_def
        select_activities_def dict_get_def catalog_def)

theorem catalog_fallback_witness:
  "api_key offline_env = None
   \<and> fetch_activities_from_api offline_env ''Bali'' ''luxury'' (max 6 (1 * 3)) = []
   \<and> ''luxury'' \<notin> {''adventure'', ''relaxed'', ''cultural'', ''food'', ''balanced''}
   \<and> days (it_data (generate_itinerary_data offline_env (\<lambda>p. []) (\<lambda>p. []) ''Bali'' 1
                       ''luxury''))
       = build_days (resolve_currency ''Bali'') ''Bali'' (the (map_of catalog ''balanced'')) 1"
proof -
  have k: "api_key offline_env = None" by (simp add: offline_env_def)
  from catalog_fallback [where e = offline_env and destination = "''Bali''"
      and travel_style = "''luxury''" and limit = "max 6 (1 * 3)" and duration_days = 1
      and dumps_cl = "\<lambda>p. []" and dumps_it = "\<lambda>p. []"] k
  show ?thesis by simp
qed

subsection \<open>Currency resolution\<close>

text \<open>
  C10. The currency is looked up by the whole lower-cased destination: for every
  destination whose lower-case form is none of tokyo, paris, bali (for example
  \<^verbatim>\<open>Tokyo, Japan\<close>), the currency of the itinerary is USD, with scale factor 1 and
  rounding unit 1.
\<close>

theorem currency_exact_match:
  "lower destination \<notin> {''tokyo'', ''paris'', ''bali''} \<Longrightarrow>
   (let p = it_data (generate_itinerary_data e dumps_cl dumps_it destination duration_days
                       travel_style)
    in it_currency p = \<lparr>cur_code = ''USD'', cur_symbol = ''$''\<rparr>
       \<and> scale_of (it_currency p) = 1
       \<and> unit_of (it_currency p) = 1
       \<and> money_currency (estimatedTotalCost (summary p)) = ''USD'')"
  by (simp add: generate_itinerary_data_def Let_def resolve_currency_def currency_map_def
        dict_get_def usd_def scale_of_def unit_of_def scale_map_def rounding_unit_def)

theorem currency_exact_match_witness:
  "lower ''Tokyo, Japan'' \<notin> {''tokyo'', ''paris'', ''bali''}
   \<and> it_currency (it_data (generate_itinerary_data offline_env (\<lambda>p. []) (\<lambda>p. [])
                             ''Tokyo, Japan'' 3 ''cultural''))
       = \<lparr>cur_code = ''USD'', cur_symbol = ''$''\<rparr>
   \<and> scale_of (it_currency (it_data (generate_itinerary_data offline_env (\<lambda>p. [])
                                       (\<lambda>p. []) ''Tokyo, Japan'' 3 ''cultural''))) = 1
   \<and> unit_of (it_currency (it_data (generate_itinerary_data offline_env (\<lambda>p. [])
                                      (\<lambda>p. []) ''Tokyo, Japan'' 3 ''cultural''))) = 1"
proof -
  have h: "lower ''Tokyo, Japan'' \<notin> {''tokyo'', ''paris'', ''bali''}" by code_simp
  from currency_exact_match [OF h, where e = offline_env and dumps_cl = "\<lambda>p. []"
      and dumps_it = "\<lambda>p. []" and duration_days = 3 and travel_style = "''cultural''"] h
  show ?thesis unfolding Let_def by blast
qed

subsection \<open>Destination research\<close>

text \<open>
  C6. \<^verbatim>\<open>research_destination("Tokyo, Japan")\<close> finds the first entry of the knowledge
  base, whose key \<^verbatim>\<open>tokyo\<close> occurs in the lower-cased destination, and its report
  contains \<^verbatim>\<open>Senso-ji Temple\<close>. \<^verbatim>\<open>research_destination("Atlantis")\<close> finds no entry
  and returns the report of the generic fallback, which contains \<^verbatim>\<open>Atlantis\<close>.
\<close>

theorem research_tokyo_atlantis:
  "lookup_destination ''Tokyo, Japan'' = Some (destinations_db ! 0)
   \<and> fst (destinations_db ! 0) = ''tokyo''
   \<and> str_in ''tokyo'' (lower ''Tokyo, Japan'')
   \<and> str_in ''Senso-ji Temple'' (research_destination ''Tokyo, Japan'' interests)
   \<and> lookup_destination ''Atlantis'' = None
   \<and> research_destination ''Atlantis'' interests
       = research_report ''Atlantis'' (fallback_info ''Atlantis'')
   \<and> str_in ''Atlantis'' (research_destination ''Atlantis'' interests)"
  unfolding research_destination_def by code_simp

text \<open>
  C9. \<^verbatim>\<open>research_destination("")\<close> does not return the fallback report: the empty
  string occurs in every key, so the first entry in table order, \<^verbatim>\<open>tokyo\<close>, is found and
  the Tokyo report is returned.
\<close>

theorem research_empty_destination:
  "lookup_destination [] = Some (destinations_db ! 0)
   \<and> fst (destinations_db ! 0) = ''tokyo''
   \<and> research_destination [] interests = research_report [] (snd (destinations_db ! 0))
   \<and> research_destination [] interests \<noteq> research_report [] (fallback_info [])
   \<and> str_in ''Senso-ji Temple'' (research_destination [] interests)"
  unfolding research_destination_def by code_simp

subsection \<open>Itinerary template\<close>

text \<open>
  C8. For every destination, travel style and environment,
  \<^verbatim>\<open>create_itinerary_template\<close> with \<open>duration_days = 20\<close> returns what it returns with
  \<open>duration_days = 14\<close>, and so does every \<open>duration_days\<close> above 14. Both calls are made
  in the same environment: the answers of the activity service are a function of the
  request.
\<close>

theorem template_clamped:
  "create_itinerary_template e dumps_cl dumps_it destination 20 travel_style
     = create_itinerary_template e dumps_cl dumps_it destination 14 travel_style
   \<and> (14 < duration_days \<longrightarrow>
        create_itinerary_template e dumps_cl dumps_it destination duration_days travel_style
        = create_itinerary_template e dumps_cl dumps_it destination 14 travel_style)"
  by (simp add: create_itinerary_template_def)

theorem template_clamped_witness:
  "(14::int) < 15
   \<and> create_itinerary_template offline_env (\<lambda>p. []) (\<lambda>p. []) ''Paris'' 15 ''relaxed''
       = create_itinerary_template offline_env (\<lambda>p. []) (\<lambda>p. []) ''Paris'' 14 ''relaxed''"
  using template_clamped [where duration_days = 15 and e = offline_env
      and dumps_cl = "\<lambda>p. []" and dumps_it = "\<lambda>p. []" and destination = "''Paris''"
      and travel_style = "''relaxed''"]
  by simp

subsection \<open>Dispatch\<close>

text \<open>
  Routing goes to the tool node exactly when some call of the response names a backend
  tool, and only a message of the model can do so.
\<close>

lemma route_iff:
  "route_to_tool_node response
   \<longleftrightarrow> (\<exists>calls. tool_calls_of response = Some calls
          \<and> (\<exists>c \<in> set calls. \<exists>n \<in> set backend_tool_names. call_name c = Some n))"
  by (cases response)
     (auto simp: route_to_tool_node_def list_ex_iff split: option.splits)

lemma route_is_ai:
  "route_to_tool_node response \<Longrightarrow> \<exists>text calls. response = AI_message text calls"
  by (cases response) (auto simp: route_to_tool_node_def)

text \<open>
  C2. Let \<open>response\<close> be what the model answers in the chat node. If it has no tool
  calls, or only calls that name none of the four backend tools, the chat node goes
  straight to \<open>END\<close> and the run returns the state with that response as its last
  message. If some call names a backend tool, the chat node goes to the tool node, which
  answers the calls and steps back to the chat node. When the response holds one call of
  a backend tool and one call of another tool, the tool node runs the backend tool only
  (the other call gets an error message) before the next round of the chat node.
\<close>

theorem dispatch_routing:
  "(let response = llm (build_request state);
        state' = add_messages state [response]
    in (route_to_tool_node response
          \<longleftrightarrow> (\<exists>calls. tool_calls_of response = Some calls
                 \<and> (\<exists>c \<in> set calls. \<exists>n \<in> set backend_tool_names. call_name c = Some n)))
       \<and> (\<not> route_to_tool_node response \<longrightarrow>
            graph_step llm invoke (Chat_node, state) = Some (END, state')
            \<and> run_graph llm invoke (Suc fuel) (Chat_node, state) = Some state'
            \<and> last (messages state') = response)
       \<and> (route_to_tool_node response \<longrightarrow>
            graph_step llm invoke (Chat_node, state) = Some (Tool_node, state')
            \<and> (\<exists>text calls. response = AI_message text calls
                 \<and> graph_step llm invoke (Tool_node, state')
                     = Some (Chat_node,
                         add_messages state' (map (run_tool_call invoke) calls))))
       \<and> (response = AI_message body [cb, cf]
            \<and> call_name cb = Some b \<and> b \<in> set backend_tool_names
            \<and> call_name cf = Some f \<and> f \<notin> set backend_tool_names \<longrightarrow>
            graph_step llm invoke (Chat_node, state) = Some (Tool_node, state')
            \<and> graph_step llm invoke (Tool_node, state')
                = Some (Chat_node,
                    add_messages state' [Tool_message b (invoke b cb), Tool_error (Some f)])))"
proof -
  define response where "response = llm (build_request state)"
  define state' where "state' = add_messages state [response]"
  have last': "last (messages state') = response"
    by (simp add: state'_def add_messages_def)
  have ne: "messages state' \<noteq> []"
    by (simp add: state'_def add_messages_def)
  have tool: "graph_step llm invoke (Tool_node, state')
              = Some (Chat_node, add_messages state' (map (run_tool_call invoke) calls))"
    if "response = AI_message t calls" for t calls
    using that last' ne by (simp add: tool_node_def)
  have stop: "graph_step llm invoke (Chat_node, state) = Some (END, state')"
    if "\<not> route_to_tool_node response"
    using that by (simp add: chat_node_def Let_def response_def state'_def)
  have go: "graph_step llm invoke (Chat_node, state) = Some (Tool_node, state')"
    if "route_to_tool_node response"
    using that by (simp add: chat_node_def Let_def response_def state'_def)
  have run: "run_graph llm invoke (Suc fuel) (Chat_node, state) = Some state'"
    if "\<not> route_to_tool_node response"
    using stop [OF that] by simp
  have mixed_route: "route_to_tool_node response"
    if "response = AI_message body [cb, cf]" "call_name cb = Some b"
       "b \<in> set backend_tool_names"
    using that by (simp add: route_to_tool_node_def)
  have mixed_run: "map (run_tool_call invoke) [cb, cf]
                   = [Tool_message b (invoke b cb), Tool_error (Some f)]"
    if "call_name cb = Some b" "b \<in> set backend_tool_names"
       "call_name cf = Some f" "f \<notin> set backend_tool_names"
    using that by (simp add: run_tool_call_def)
  have A: "route_to_tool_node response
          \<longleftrightarrow> (\<exists>calls. tool_calls_of response = Some calls
                 \<and> (\<exists>c \<in> set calls. \<exists>n \<in> set backend_tool_names. call_name c = Some n))"
    by (rule route_iff)
  have B: "\<not> route_to_tool_node response \<longrightarrow>
            graph_step llm invoke (Chat_node, state) = Some (END, state')
            \<and> run_graph llm invoke (Suc fuel) (Chat_node, state) = Some state'
            \<and> last (messages state') = response"
    using stop run last' by blast
  have C: "route_to_tool_node response \<longrightarrow>
            graph_step llm invoke (Chat_node, state) = Some (Tool_node, state')
            \<and> (\<exists>text calls. response = AI_message text calls
                 \<and> graph_step llm invoke (Tool_node, state')
                     = Some (Chat_node,
                         add_messages state' (map (run_tool_call invoke) calls)))"
    using go route_is_ai tool by blast
  have D: "response = AI_message body [cb, cf]
            \<and> call_name cb = Some b \<and> b \<in> set backend_tool_names
            \<and> call_name cf = Some f \<and> f \<notin> set backend_tool_names \<longrightarrow>
            graph_step llm invoke (Chat_node, state) = Some (Tool_node, state')
            \<and> graph_step llm invoke (Tool_node, state')
                = Some (Chat_node,
                    add_messages state' [Tool_message b (invoke b cb), Tool_error (Some f)])"
    using go mixed_route tool [of body "[cb, cf]"] mixed_run by metis
  from A B C D show ?thesis
    unfolding Let_def response_def [symmetric] state'_def [symmetric] by blast
qed

theorem dispatch_routing_witness:
  "\<not> route_to_tool_node (AI_message ''Done.'' [frontend_call])
   \<and> graph_step (\<lambda>r. AI_message ''Done.'' [frontend_call]) (\<lambda>n c. n) (Chat_node, example_state)
       = Some (END, add_messages example_state [AI_message ''Done.'' [frontend_call]])
   \<and> run_graph (\<lambda>r. AI_message ''Done.'' [frontend_call]) (\<lambda>n c. n) (Suc 0)
         (Chat_node, example_state)
       = Some (add_messages example_state [AI_message ''Done.'' [frontend_call]])
   \<and> route_to_tool_node (AI_message [] [backend_call, frontend_call])
   \<and> ''research_destination'' \<in> set backend_tool_names
   \<and> ''updateDocument'' \<notin> set backend_tool_names
   \<and> graph_step (\<lambda>r. AI_message [] [backend_call, frontend_call]) (\<lambda>n c. n)
         (Chat_node, example_state)
       = Some (Tool_node,
           add_messages example_state [AI_message [] [backend_call, frontend_call]])
   \<and> graph_step (\<lambda>r. AI_message [] [backend_call, frontend_call]) (\<lambda>n c. n)
         (Tool_node, add_messages example_state [AI_message [] [backend_call, frontend_call]])
       = Some (Chat_node,
           add_messages
             (add_messages example_state [AI_message [] [backend_call, frontend_call]])
             [Tool_message ''research_destination'' ''research_destination'',
              Tool_error (Some ''updateDocument'')])"
proof -
  have no: "\<not> route_to_tool_node (AI_message ''Done.'' [frontend_call])"
    by (simp add: route_to_tool_node_def frontend_call_def backend_tool_names_def)
  have yes: "route_to_tool_node (AI_message [] [backend_call, frontend_call])"
    by (simp add: route_to_tool_node_def backend_call_def backend_tool_names_def)
  have b: "call_name backend_call = Some ''research_destination''"
    "''research_destination'' \<in> set backend_tool_names"
    by (simp_all add: backend_call_def backend_tool_names_def)
  have f: "call_name frontend_call = Some ''updateDocument''"
    "''updateDocument'' \<notin> set backend_tool_names"
    by (simp_all add: frontend_call_def backend_tool_names_def)
  from no
    dispatch_routing [where llm = "\<lambda>r. AI_message ''Done.'' [frontend_call]"
      and invoke = "\<lambda>n c. n" and state = example_state and fuel = 0]
  have stop:
    "graph_step (\<lambda>r. AI_message ''Done.'' [frontend_call]) (\<lambda>n c. n) (Chat_node, example_state)
       = Some (END, add_messages example_state [AI_message ''Done.'' [frontend_call]])
     \<and> run_graph (\<lambda>r. AI_message ''Done.'' [frontend_call]) (\<lambda>n c. n) (Suc 0)
         (Chat_node, example_state)
       = Some (add_messages example_state [AI_message ''Done.'' [frontend_call]])"
    unfolding Let_def by blast
  from b f
    dispatch_routing [where llm = "\<lambda>r. AI_message [] [backend_call, frontend_call]"
      and invoke = "\<lambda>n c. n" and state = example_state and body = "[]"
      and cb = backend_call and cf = frontend_call and b = "''research_destination''"
      and f = "''updateDocument''"]
  have mixed:
    "graph_step (\<lambda>r. AI_message [] [backend_call, frontend_call]) (\<lambda>n c. n)
         (Chat_node, example_state)
       = Some (Tool_node,
           add_messages example_state [AI_message [] [backend_call, frontend_call]])
     \<and> graph_step (\<lambda>r. AI_message [] [backend_call, frontend_call]) (\<lambda>n c. n)
         (Tool_node, add_messages example_state [AI_message [] [backend_call, frontend_call]])
       = Some (Chat_node,
           add_messages
             (add_messages example_state [AI_message [] [backend_call, frontend_call]])
             [Tool_message ''research_destination'' ''research_destination'',
              Tool_error (Some ''updateDocument'')])"
    unfolding Let_def by blast
  from no yes b(2) f(2) stop mixed show ?thesis by blast
qed

end
